theory Spec2Isabelle
  imports Complex_Main
begin

section \<open>The orbox game: vectors, positions and bounded movement\<close>

text \<open>
  A shallow embedding of \<^verbatim>\<open>src/orbox/orbox.ts\<close>. The TypeScript type \<^verbatim>\<open>number\<close> is
  modelled by the real numbers: the arithmetic of the program (sums of coordinates,
  comparisons against the clamp bounds) is taken as exact, and the values \<^verbatim>\<open>NaN\<close> and
  \<^verbatim>\<open>Infinity\<close> are outside the model, so every vector of the model is finite. Where
  the rounding of a sum matters (a move followed by the opposite move), the same
  methods are given a second time with the rounding of IEEE double precision made
  explicit; these carry the suffix \<open>_double\<close>. Drawing (the render callback of a game
  object, the canvas context, the colours, the render timer) does not touch any
  position and is left out; every statement below is about positions, the console
  output of \<^verbatim>\<open>moveX\<close>, and the errors raised.
\<close>

type_synonym number = real

subsection \<open>Double-precision arithmetic\<close>

text \<open>
  The finite values of a \<^verbatim>\<open>number\<close>: an integer significand below \<open>2 ^ 53\<close> in
  magnitude, scaled by a power of two with an exponent from \<open>-1074\<close> to \<open>971\<close>.
\<close>

definition is_double :: "real \<Rightarrow> bool" where
  "is_double r \<longleftrightarrow>
     (\<exists>m e. \<bar>m\<bar> < 2 ^ 53 \<and> - 1074 \<le> e \<and> e \<le> 971 \<and> r = real_of_int m * 2 powi e)"

text \<open>
  The exponent of the unit in the last place of \<open>a\<close>: the least \<open>e\<close> from \<open>-1074\<close> on
  with \<open>a < 2 powi (e + 53)\<close>, found by counting up (at most 2045 steps, to 971).
\<close>

fun find_exponent :: "nat \<Rightarrow> int \<Rightarrow> real \<Rightarrow> int" where
  "find_exponent 0 e a = e"
| "find_exponent (Suc n) e a =
     (if 2 powi (e + 53) \<le> a then find_exponent n (e + 1) a else e)"

definition ulp_exponent :: "real \<Rightarrow> int" where
  "ulp_exponent r = find_exponent 2045 (- 1074) \<bar>r\<bar>"

text \<open>Rounding to the nearest integer, a tie going to the even one.\<close>

definition round_half_even :: "real \<Rightarrow> int" where
  "round_half_even q =
     (let n = \<lfloor>q\<rfloor>; d = q - of_int n
      in if d < 1 / 2 then n else if 1 / 2 < d then n + 1 else if even n then n else n + 1)"

text \<open>
  The result of an arithmetic operation whose exact value is \<open>r\<close>: the nearest double,
  ties to even. Beyond the largest finite double the program gets \<^verbatim>\<open>Infinity\<close>, which
  is outside the model.
\<close>

definition round_double :: "real \<Rightarrow> real" where
  "round_double r =
     (let e = ulp_exponent r
      in of_int (round_half_even (r / 2 powi e)) * 2 powi e)"

subsection \<open>Vector\<close>

text \<open>\<^verbatim>\<open>class Vector implements Point { x: number; y: number }\<close>\<close>

record Vector =
  x :: number
  y :: number

text \<open>\<^verbatim>\<open>static new (x, y)\<close>: alias of the constructor.\<close>

definition Vector_new :: "number \<Rightarrow> number \<Rightarrow> Vector" where
  "Vector_new a b = \<lparr>x = a, y = b\<rparr>"

text \<open>\<^verbatim>\<open>static get origin\<close>: a fresh vector (0, 0).\<close>

definition Vector_origin :: Vector where
  "Vector_origin = Vector_new 0 0"

text \<open>
  The body of \<^verbatim>\<open>vectors.forEach\<close> in \<^verbatim>\<open>Vector.add\<close>: the accumulator
  \<^verbatim>\<open>resultantVector\<close> is updated in place, once per argument, in argument order.
\<close>

fun forEach_add :: "Vector \<Rightarrow> Vector list \<Rightarrow> Vector" where
  "forEach_add resultantVector [] = resultantVector"
| "forEach_add resultantVector (vector # vectors) =
     forEach_add (resultantVector\<lparr>x := x resultantVector + x vector,
                                  y := y resultantVector + y vector\<rparr>) vectors"

text \<open>\<^verbatim>\<open>static add(...vectors)\<close>: the rest parameter is the list of arguments.\<close>

definition Vector_add :: "Vector list \<Rightarrow> Vector" where
  "Vector_add vectors = forEach_add Vector_origin vectors"

text \<open>
  \<^verbatim>\<open>plus(...vectors)\<close>: the receiver is the last argument of the model, and the
  mutated receiver is the result.
\<close>

definition Vector_plus :: "Vector list \<Rightarrow> Vector \<Rightarrow> Vector" where
  "Vector_plus vectors this =
     (let resultantVector = Vector_add (Vector_new (x this) (y this) # vectors)
      in this\<lparr>x := x resultantVector, y := y resultantVector\<rparr>)"

text \<open>
  Vectors are objects, and an argument of \<^verbatim>\<open>plus\<close> may be the receiver itself. A store
  maps references to the objects they denote; \<^verbatim>\<open>p.plus(...vectors)\<close> reads the
  arguments (inside \<^verbatim>\<open>Vector.add\<close>) before it writes the receiver.
\<close>

type_synonym ref = nat

type_synonym store = "ref \<Rightarrow> Vector"

definition Vector_plus_at :: "ref \<Rightarrow> ref list \<Rightarrow> store \<Rightarrow> store" where
  "Vector_plus_at this vectors s = s(this := Vector_plus (map s vectors) (s this))"

text \<open>The same three methods, each \<^verbatim>\<open>+=\<close> rounded to a double.\<close>

fun forEach_add_double :: "Vector \<Rightarrow> Vector list \<Rightarrow> Vector" where
  "forEach_add_double resultantVector [] = resultantVector"
| "forEach_add_double resultantVector (vector # vectors) =
     forEach_add_double
       (resultantVector\<lparr>x := round_double (x resultantVector + x vector),
                         y := round_double (y resultantVector + y vector)\<rparr>) vectors"

definition Vector_add_double :: "Vector list \<Rightarrow> Vector" where
  "Vector_add_double vectors = forEach_add_double Vector_origin vectors"

definition Vector_plus_double :: "Vector list \<Rightarrow> Vector \<Rightarrow> Vector" where
  "Vector_plus_double vectors this =
     (let resultantVector = Vector_add_double (Vector_new (x this) (y this) # vectors)
      in this\<lparr>x := x resultantVector, y := y resultantVector\<rparr>)"

subsection \<open>Position\<close>

text \<open>\<^verbatim>\<open>class Position extends Vector\<close> adds methods and no field.\<close>

type_synonym Position = Vector

definition Position_move :: "Vector \<Rightarrow> Position \<Rightarrow> Position" where
  "Position_move vector this = Vector_plus [vector] this"

text \<open>
  \<^verbatim>\<open>moveX\<close> writes \<^verbatim>\<open>this.x\<close> to the console before and after the move. The console is
  the list of the numbers logged so far; the directional helpers thread it along with
  the position.
\<close>

type_synonym console = "number list"

definition Position_moveX :: "number \<Rightarrow> Position \<times> console \<Rightarrow> Position \<times> console" where
  "Position_moveX n s =
     (let this = fst s;
          log1 = snd s @ [x this];
          this1 = Position_move (Vector_new n 0) this;
          log2 = log1 @ [x this1]
      in (this1, log2))"

definition Position_moveY :: "number \<Rightarrow> Position \<times> console \<Rightarrow> Position \<times> console" where
  "Position_moveY n s = (Position_move (Vector_new 0 n) (fst s), snd s)"

definition Position_moveLeft :: "number \<Rightarrow> Position \<times> console \<Rightarrow> Position \<times> console" where
  "Position_moveLeft units s = Position_moveX (- units) s"

definition Position_moveUp :: "number \<Rightarrow> Position \<times> console \<Rightarrow> Position \<times> console" where
  "Position_moveUp units s = Position_moveY (- units) s"

definition Position_moveDown :: "number \<Rightarrow> Position \<times> console \<Rightarrow> Position \<times> console" where
  "Position_moveDown units s = Position_moveY units s"

definition Position_moveRight :: "number \<Rightarrow> Position \<times> console \<Rightarrow> Position \<times> console" where
  "Position_moveRight units s = Position_moveX units s"

text \<open>
  \<^verbatim>\<open>move\<close>, \<^verbatim>\<open>moveX\<close>, \<^verbatim>\<open>moveLeft\<close> and \<^verbatim>\<open>moveRight\<close> with rounded sums. Negating a
  double is exact.
\<close>

definition Position_move_double :: "Vector \<Rightarrow> Position \<Rightarrow> Position" where
  "Position_move_double vector this = Vector_plus_double [vector] this"




subsection \<open>Errors and the module-level \<^verbatim>\<open>this\<close>\<close>

text \<open>
  The only error the modelled code can raise is the \<^verbatim>\<open>TypeError\<close> of a property read on
  \<^verbatim>\<open>undefined\<close> or \<^verbatim>\<open>null\<close>.
\<close>

datatype error = TypeError

text \<open>
  The arrow function assigned to \<^verbatim>\<open>player.move\<close> is created at the top level of the
  file, so its \<^verbatim>\<open>this\<close> is the top-level \<^verbatim>\<open>this\<close>, never the player: \<^verbatim>\<open>undefined\<close>
  when the file is loaded as a module, the global object when it is loaded as a
  script. Of the global object only its property \<^verbatim>\<open>pos\<close> is read: absent
  (\<open>None\<close>), or some value with components.
\<close>

datatype module_this = This_undefined | This_object "Vector option"

subsection \<open>GameObject and Rectangle\<close>

text \<open>
  A method slot of an object: \<^verbatim>\<open>move\<close> is found on the prototype
  (\<^verbatim>\<open>GameObject.move\<close>) unless the object has an own property \<^verbatim>\<open>move\<close>, which only
  the assignment \<^verbatim>\<open>player.move = ...\<close> creates.
\<close>

datatype move_impl = Prototype_move | Player_override

record GameObject =
  pos :: Position
  move_method :: move_impl

record Rectangle = GameObject +
  width :: number
  height :: number

text \<open>\<^verbatim>\<open>const units = 20\<close>\<close>

definition units :: number where
  "units = 20"

text \<open>\<^verbatim>\<open>let canvas: HTMLCanvasElement\<close>: only its width and height are read.\<close>

record HTMLCanvasElement =
  canvas_width :: number
  canvas_height :: number

text \<open>
  \<^verbatim>\<open>GameObject.move(vector)\<close>: move the position, then clamp each coordinate, with the
  global \<^verbatim>\<open>canvas\<close> as a parameter. It is inherited by \<^verbatim>\<open>Rectangle\<close>, hence the record
  scheme.
\<close>

definition GameObject_move ::
  "HTMLCanvasElement \<Rightarrow> Vector \<Rightarrow> 'a GameObject_scheme \<Rightarrow> 'a GameObject_scheme" where
  "GameObject_move canvas vector this =
     (let p1 = Position_move vector (pos this);
          p2 = (if x p1 < 0 then p1\<lparr>x := 0\<rparr>
                else if x p1 > canvas_width canvas - units
                then p1\<lparr>x := canvas_width canvas - units\<rparr>
                else p1);
          p3 = (if y p2 < 0 then p2\<lparr>y := 0\<rparr>
                else if y p2 > canvas_height canvas - units
                then p2\<lparr>y := canvas_height canvas - units\<rparr>
                else p2)
      in this\<lparr>pos := p3\<rparr>)"

text \<open>
  \<^verbatim>\<open>GameObject.move(vector)\<close> in double precision: the sums of the move and the
  differences \<^verbatim>\<open>canvas.width - units\<close> and \<^verbatim>\<open>canvas.height - units\<close> are rounded;
  comparisons are exact.
\<close>

definition GameObject_move_double ::
  "HTMLCanvasElement \<Rightarrow> Vector \<Rightarrow> 'a GameObject_scheme \<Rightarrow> 'a GameObject_scheme" where
  "GameObject_move_double canvas vector this =
     (let p1 = Position_move_double vector (pos this);
          p2 = (if x p1 < 0 then p1\<lparr>x := 0\<rparr>
                else if x p1 > round_double (canvas_width canvas - units)
                then p1\<lparr>x := round_double (canvas_width canvas - units)\<rparr>
                else p1);
          p3 = (if y p2 < 0 then p2\<lparr>y := 0\<rparr>
                else if y p2 > round_double (canvas_height canvas - units)
                then p2\<lparr>y := round_double (canvas_height canvas - units)\<rparr>
                else p2)
      in this\<lparr>pos := p3\<rparr>)"

text \<open>
  The constructor of \<^verbatim>\<open>Rectangle\<close>; the context and the colours go to the render
  callback only.
\<close>

definition Rectangle_new :: "Position \<Rightarrow> number \<Rightarrow> number \<Rightarrow> Rectangle" where
  "Rectangle_new p w h = \<lparr>pos = p, move_method = Prototype_move, width = w, height = h\<rparr>"

subsection \<open>The module state\<close>

text \<open>\<^verbatim>\<open>enum ArrowKey\<close>\<close>

definition ArrowKey_Left :: string where "ArrowKey_Left = ''ArrowLeft''"
definition ArrowKey_Down :: string where "ArrowKey_Down = ''ArrowDown''"
definition ArrowKey_Up :: string where "ArrowKey_Up = ''ArrowUp''"
definition ArrowKey_Right :: string where "ArrowKey_Right = ''ArrowRight''"

text \<open>
  The module's variables: the canvas, the top-level \<^verbatim>\<open>this\<close>, and the objects.
  \<^verbatim>\<open>background\<close> and \<^verbatim>\<open>player\<close> are also the first two elements of
  \<^verbatim>\<open>gameObjects\<close>; the four obstacles are reachable through the array only.
\<close>

record World =
  canvas :: HTMLCanvasElement
  top_this :: module_this
  background :: Rectangle
  player :: Rectangle
  obstacles :: "Rectangle list"

definition gameObjects :: "World \<Rightarrow> Rectangle list" where
  "gameObjects w = background w # player w # obstacles w"

text \<open>
  \<^verbatim>\<open>player.move = (vector) => { if (this.pos.x > 0 && vector.x < 0) { } }\<close>: the
  assignment, and the function it installs. Reading \<^verbatim>\<open>this.pos.x\<close> raises a
  \<^verbatim>\<open>TypeError\<close> unless the top-level \<^verbatim>\<open>this\<close> is an object with a \<^verbatim>\<open>pos\<close>; the body of
  the conditional is empty.
\<close>

definition assign_player_move :: "World \<Rightarrow> World" where
  "assign_player_move w = w\<lparr>player := (player w)\<lparr>move_method := Player_override\<rparr>\<rparr>"

definition player_move_override :: "Vector \<Rightarrow> World \<Rightarrow> (error + unit) \<times> World" where
  "player_move_override vector w =
     (case top_this w of
        This_undefined \<Rightarrow> (Inl TypeError, w)
      | This_object None \<Rightarrow> (Inl TypeError, w)
      | This_object (Some p) \<Rightarrow>
          (if x p > 0 \<and> x vector < 0 then (Inr (), w) else (Inr (), w)))"

text \<open>The call \<^verbatim>\<open>player.move(vector)\<close>, dispatched on the player's method slot.\<close>

definition player_move :: "Vector \<Rightarrow> World \<Rightarrow> (error + unit) \<times> World" where
  "player_move vector w =
     (case move_method (player w) of
        Prototype_move \<Rightarrow> (Inr (), w\<lparr>player := GameObject_move (canvas w) vector (player w)\<rparr>)
      | Player_override \<Rightarrow> player_move_override vector w)"

text \<open>
  The \<^verbatim>\<open>keydown\<close> listener, on the \<^verbatim>\<open>key\<close> of the event. An error raised by the call
  leaves the listener; the module state stays as it was when the error was raised.
\<close>

definition keydown :: "string \<Rightarrow> World \<Rightarrow> (error + unit) \<times> World" where
  "keydown key w =
     (if key = ArrowKey_Left then player_move (Vector_new (- units) 0) w
      else if key = ArrowKey_Up then player_move (Vector_new 0 (- units)) w
      else if key = ArrowKey_Down then player_move (Vector_new 0 units) w
      else if key = ArrowKey_Right then player_move (Vector_new units 0) w
      else (Inr (), w))"

text \<open>
  Module initialisation. \<^verbatim>\<open>document.querySelector('#canvas')\<close> gives the canvas or
  \<^verbatim>\<open>null\<close>, and \<^verbatim>\<open>canvas.getContext('2d')\<close> raises a \<^verbatim>\<open>TypeError\<close> on \<^verbatim>\<open>null\<close>. Then the
  background, the player and the four obstacles are created and the player's
  \<^verbatim>\<open>move\<close> is reassigned. No other check is made.
\<close>

definition created_world :: "HTMLCanvasElement \<Rightarrow> module_this \<Rightarrow> World" where
  "created_world c this =
     \<lparr>canvas = c, top_this = this,
      background = Rectangle_new (Vector_new 0 0) (canvas_width c) (canvas_height c),
      player = Rectangle_new (Vector_new (5 * units) (6 * units)) units units,
      obstacles =
        [Rectangle_new (Vector_new (8 * units) (6 * units)) units units,
         Rectangle_new (Vector_new (0 * units) (6 * units)) units units,
         Rectangle_new (Vector_new (1 * units) (2 * units)) units units,
         Rectangle_new (Vector_new (5 * units) (5 * units)) units units]\<rparr>"

definition loaded_world :: "HTMLCanvasElement \<Rightarrow> module_this \<Rightarrow> World" where
  "loaded_world c this = assign_player_move (created_world c this)"

definition init :: "HTMLCanvasElement option \<Rightarrow> module_this \<Rightarrow> error + World" where
  "init querySelector_result this =
     (case querySelector_result of
        None \<Rightarrow> Inl TypeError
      | Some c \<Rightarrow> Inr (loaded_world c this))"

subsection \<open>The bounds the claims speak of\<close>

text \<open>
  The position of an entity lies inside the world by the entity's own size:
  \<open>0 \<le> x \<le> worldWidth - width\<close> and \<open>0 \<le> y \<le> worldHeight - height\<close>.
\<close>

definition inside_by_size :: "HTMLCanvasElement \<Rightarrow> Rectangle \<Rightarrow> bool" where
  "inside_by_size c r \<longleftrightarrow>
     0 \<le> x (pos r) \<and> x (pos r) \<le> canvas_width c - width r \<and>
     0 \<le> y (pos r) \<and> y (pos r) \<le> canvas_height c - height r"

text \<open>
  The position lies in the range the code clamps to:
  \<open>0 \<le> x \<le> canvas.width - units\<close> and \<open>0 \<le> y \<le> canvas.height - units\<close>.
\<close>

definition inside_by_units :: "HTMLCanvasElement \<Rightarrow> 'a GameObject_scheme \<Rightarrow> bool" where
  "inside_by_units c r \<longleftrightarrow>
     0 \<le> x (pos r) \<and> x (pos r) \<le> canvas_width c - units \<and>
     0 \<le> y (pos r) \<and> y (pos r) \<le> canvas_height c - units"


subsection \<open>Concrete canvases\<close>

text \<open>
  The 400 by 400 world of the specification's examples, a canvas narrower than one
  unit, and a canvas of width and height 0 (all three are sizes a canvas element can
  have).
\<close>

definition spec_canvas :: HTMLCanvasElement where
  "spec_canvas = \<lparr>canvas_width = 400, canvas_height = 400\<rparr>"

definition small_canvas :: HTMLCanvasElement where
  "small_canvas = \<lparr>canvas_width = 10, canvas_height = 10\<rparr>"

definition empty_canvas :: HTMLCanvasElement where
  "empty_canvas = \<lparr>canvas_width = 0, canvas_height = 0\<rparr>"

subsection \<open>A concrete store\<close>

text \<open>
  Two vector objects: \<open>(1, 2)\<close> at reference 0 and \<open>(10, 20)\<close> at reference 1; every
  other reference denotes a zero vector.
\<close>

definition two_vectors :: store where
  "two_vectors = (\<lambda>_. Vector_origin)(0 := Vector_new 1 2, 1 := Vector_new 10 20)"

section \<open>Vector arithmetic\<close>

lemma forEach_add_x:
  "x (forEach_add r vs) = x r + sum_list (map x vs)"
  by (induction vs arbitrary: r) simp_all

lemma forEach_add_y:
  "y (forEach_add r vs) = y r + sum_list (map y vs)"
  by (induction vs arbitrary: r) simp_all

lemma Vector_add_x: "x (Vector_add vs) = sum_list (map x vs)"
  by (simp add: Vector_add_def Vector_origin_def Vector_new_def forEach_add_x)

lemma Vector_add_y: "y (Vector_add vs) = sum_list (map y vs)"
  by (simp add: Vector_add_def Vector_origin_def Vector_new_def forEach_add_y)

lemma Vector_plus_x: "x (Vector_plus vs p) = x p + sum_list (map x vs)"
  by (simp add: Vector_plus_def Vector_add_x Vector_new_def)

lemma Vector_plus_y: "y (Vector_plus vs p) = y p + sum_list (map y vs)"
  by (simp add: Vector_plus_def Vector_add_y Vector_new_def)

text \<open>
  Claim C5: \<^verbatim>\<open>Vector.add()\<close> with no argument returns the zero vector (0, 0), and
  \<^verbatim>\<open>Vector.add(v)\<close> returns a vector whose components are those of \<open>v\<close> (so it is \<open>v\<close>
  as a value).
\<close>

theorem Vector_add_nullary_unary:
  "Vector_add [] = Vector_origin \<and> x (Vector_add []) = 0 \<and> y (Vector_add []) = 0
   \<and> x (Vector_add [v]) = x v \<and> y (Vector_add [v]) = y v \<and> Vector_add [v] = v"
  by (simp add: Vector_add_def Vector_origin_def Vector_new_def)

text \<open>
  On values, \<^verbatim>\<open>plus(a)\<close> followed by \<^verbatim>\<open>plus(b)\<close> is \<^verbatim>\<open>plus(a, b)\<close>.
\<close>

lemma Vector_plus_twice:
  "Vector_plus [b] (Vector_plus [a] p) = Vector_plus [a, b] p"
  by (simp add: Vector_plus_def Vector_add_def Vector_origin_def Vector_new_def)

text \<open>
  Claim C6, as stated, fails when \<open>b\<close> is the receiver itself: with \<open>p = (1, 2)\<close> and
  \<open>a = (10, 20)\<close>, \<^verbatim>\<open>p.plus(a); p.plus(p)\<close> leaves \<open>p = (22, 44)\<close>, and
  \<^verbatim>\<open>p.plus(a, p)\<close> leaves \<open>p = (12, 24)\<close>.
\<close>

theorem Vector_plus_receiver_counterexample:
  "Vector_plus_at 0 [0] (Vector_plus_at 0 [1] two_vectors) 0 = Vector_new 22 44 \<and>
   Vector_plus_at 0 [1, 0] two_vectors 0 = Vector_new 12 24 \<and>
   Vector_plus_at 0 [0] (Vector_plus_at 0 [1] two_vectors) 0
     \<noteq> Vector_plus_at 0 [1, 0] two_vectors 0"
  by (simp add: Vector_plus_at_def two_vectors_def Vector_plus_def Vector_add_def
      Vector_origin_def Vector_new_def)

text \<open>
  Claim C6, amended: for every receiver \<open>p\<close> and all vectors \<open>a\<close> and \<open>b\<close>, where \<open>b\<close>
  is not the receiver object itself (\<open>a\<close> may be), \<^verbatim>\<open>p.plus(a)\<close> followed by
  \<^verbatim>\<open>p.plus(b)\<close> leaves \<open>p\<close>, and every other object, with the same value as the single
  call \<^verbatim>\<open>p.plus(a, b)\<close>.
\<close>

theorem Vector_plus_at_twice:
  "b \<noteq> p \<Longrightarrow> Vector_plus_at p [b] (Vector_plus_at p [a] s) = Vector_plus_at p [a, b] s"
proof -
  assume "b \<noteq> p"
  then have "Vector_plus_at p [a] s b = s b"
    by (simp add: Vector_plus_at_def)
  then have "Vector_plus_at p [b] (Vector_plus_at p [a] s) =
      s(p := Vector_plus [s b] (Vector_plus [s a] (s p)))"
    by (simp add: Vector_plus_at_def)
  also have "\<dots> = Vector_plus_at p [a, b] s"
    by (simp only: Vector_plus_twice) (simp add: Vector_plus_at_def)
  finally show ?thesis .
qed

theorem Vector_plus_at_twice_witness:
  "(1::ref) \<noteq> 0 \<and>
   Vector_plus_at 0 [1] (Vector_plus_at 0 [0] two_vectors) = Vector_plus_at 0 [0, 1] two_vectors \<and>
   Vector_plus_at 0 [0, 1] two_vectors 0 = Vector_new 12 24"
proof -
  have h: "(1::ref) \<noteq> 0" by simp
  have "Vector_plus_at 0 [0, 1] two_vectors 0 = Vector_new 12 24"
    by (simp add: Vector_plus_at_def two_vectors_def Vector_plus_def Vector_add_def
        Vector_origin_def Vector_new_def)
  then show ?thesis
    using h Vector_plus_at_twice [OF h, of 0 two_vectors] by simp
qed

section \<open>Directional helpers of Position\<close>

lemma Position_move_x: "x (Position_move v p) = x p + x v"
  by (simp add: Position_move_def Vector_plus_x)

lemma Position_move_y: "y (Position_move v p) = y p + y v"
  by (simp add: Position_move_def Vector_plus_y)

text \<open>
  Claim C7: each directional helper moves the position as \<^verbatim>\<open>move\<close> does with the
  axis vector: \<^verbatim>\<open>moveLeft(u)\<close> as \<^verbatim>\<open>move((-u, 0))\<close>, \<^verbatim>\<open>moveRight(u)\<close> as
  \<^verbatim>\<open>move((u, 0))\<close>, \<^verbatim>\<open>moveUp(u)\<close> as \<^verbatim>\<open>move((0, -u))\<close>, \<^verbatim>\<open>moveDown(u)\<close> as
  \<^verbatim>\<open>move((0, u))\<close>, for every \<open>u\<close> of either sign; so \<^verbatim>\<open>moveRight(-m)\<close> is
  \<^verbatim>\<open>moveLeft(m)\<close> and \<^verbatim>\<open>moveDown(-m)\<close> is \<^verbatim>\<open>moveUp(m)\<close>, console output included.
\<close>

theorem Position_directional_helpers:
  "fst (Position_moveLeft u s) = Position_move (Vector_new (- u) 0) (fst s) \<and>
   fst (Position_moveRight u s) = Position_move (Vector_new u 0) (fst s) \<and>
   fst (Position_moveUp u s) = Position_move (Vector_new 0 (- u)) (fst s) \<and>
   fst (Position_moveDown u s) = Position_move (Vector_new 0 u) (fst s) \<and>
   Position_moveRight (- m) s = Position_moveLeft m s \<and>
   Position_moveDown (- m) s = Position_moveUp m s"
  by (simp add: Position_moveLeft_def Position_moveRight_def Position_moveUp_def
      Position_moveDown_def Position_moveX_def Position_moveY_def Let_def)

section \<open>The clamp of GameObject.move\<close>

lemma GameObject_move_x:
  "x (pos (GameObject_move c v r)) =
     (if x (pos r) + x v < 0 then 0
      else if x (pos r) + x v > canvas_width c - units then canvas_width c - units
      else x (pos r) + x v)"
  by (simp add: GameObject_move_def Let_def Position_move_x)

lemma GameObject_move_y:
  "y (pos (GameObject_move c v r)) =
     (if y (pos r) + y v < 0 then 0
      else if y (pos r) + y v > canvas_height c - units then canvas_height c - units
      else y (pos r) + y v)"
  by (simp add: GameObject_move_def Let_def Position_move_y)

lemma GameObject_move_frame:
  "move_method (GameObject_move c v r) = move_method r"
  "GameObject.more (GameObject_move c v r) = GameObject.more r"
  by (simp_all add: GameObject_move_def Let_def)

lemma GameObject_move_size:
  "width (GameObject_move c v r) = width r"
  "height (GameObject_move c v r) = height r"
  by (simp_all add: GameObject_move_def Let_def)

lemma GameObject_move_ignores_size:
  "pos (GameObject_move c v (r\<lparr>width := w, height := h\<rparr>)) = pos (GameObject_move c v r)"
  by (simp add: GameObject_move_def Let_def)

lemma GameObject_eqI:
  "x (pos r) = x (pos q) \<Longrightarrow> y (pos r) = y (pos q) \<Longrightarrow> move_method r = move_method q
   \<Longrightarrow> GameObject.more r = GameObject.more q \<Longrightarrow> r = q"
  by (simp add: GameObject.equality Vector.equality)

lemmas world_defs =
  loaded_world_def assign_player_move_def created_world_def Rectangle_new_def
  Vector_new_def units_def

text \<open>
  Claim C1, as stated, fails: the background rectangle is as wide as the canvas, so its
  own bound on \<open>x\<close> is \<open>400 - 400 = 0\<close>, and \<^verbatim>\<open>move((20, 0))\<close> puts it at \<open>x = 20\<close>.
\<close>

theorem GameObject_move_own_size_counterexample:
  "\<not> inside_by_size spec_canvas
       (GameObject_move spec_canvas (Vector_new 20 0)
          (background (loaded_world spec_canvas This_undefined)))"
  by (simp add: inside_by_size_def GameObject_move_x GameObject_move_size world_defs
      spec_canvas_def)

text \<open>
  Claim C1, amended: for every entity whose width and height are at most \<^verbatim>\<open>units\<close>, in
  a world at least \<^verbatim>\<open>units\<close> wide and high, and every displacement \<open>d\<close>, after
  \<^verbatim>\<open>move(d)\<close> the position satisfies \<open>0 \<le> x \<le> worldWidth - width\<close> and
  \<open>0 \<le> y \<le> worldHeight - height\<close>.
\<close>

theorem GameObject_move_inside_by_size:
  "width r \<le> units \<Longrightarrow> height r \<le> units \<Longrightarrow>
   units \<le> canvas_width c \<Longrightarrow> units \<le> canvas_height c \<Longrightarrow>
   inside_by_size c (GameObject_move c d r)"
  by (simp add: inside_by_size_def GameObject_move_x GameObject_move_y GameObject_move_size)

theorem GameObject_move_inside_by_size_witness:
  "width (player (loaded_world spec_canvas This_undefined)) \<le> units \<and>
   height (player (loaded_world spec_canvas This_undefined)) \<le> units \<and>
   units \<le> canvas_width spec_canvas \<and> units \<le> canvas_height spec_canvas \<and>
   inside_by_size spec_canvas
     (GameObject_move spec_canvas (Vector_new 500 (- 500))
        (player (loaded_world spec_canvas This_undefined)))"
proof -
  have h:
    "width (player (loaded_world spec_canvas This_undefined)) \<le> units"
    "height (player (loaded_world spec_canvas This_undefined)) \<le> units"
    "units \<le> canvas_width spec_canvas"
    "units \<le> canvas_height spec_canvas"
    by (simp_all add: world_defs spec_canvas_def)
  show ?thesis
    using h GameObject_move_inside_by_size [OF h, of "Vector_new 500 (- 500)"] by simp
qed

text \<open>
  Claim C10, as stated, fails on a canvas narrower than \<^verbatim>\<open>units\<close>: the ceiling
  \<open>canvas.width - units\<close> is \<open>-10\<close> there, and the player, moved by \<open>(20, 0)\<close> from
  \<open>(100, 120)\<close>, ends at \<open>(-10, -10)\<close>.
\<close>

theorem GameObject_move_units_counterexample:
  "\<not> inside_by_units small_canvas
       (GameObject_move small_canvas (Vector_new 20 0)
          (player (loaded_world small_canvas This_undefined)))"
  by (simp add: inside_by_units_def GameObject_move_x world_defs small_canvas_def)

text \<open>
  Claim C10, amended: \<^verbatim>\<open>GameObject.move\<close> clamps by the global \<^verbatim>\<open>units\<close>, not by the
  entity's size. On a canvas at least \<^verbatim>\<open>units\<close> wide and high, for every game object
  (of any width and height) and every \<open>d\<close>, after \<^verbatim>\<open>move(d)\<close> the position satisfies
  \<open>0 \<le> x \<le> canvas.width - units\<close> and \<open>0 \<le> y \<le> canvas.height - units\<close>; and the
  position reached does not depend on the width and height of the rectangle.
\<close>

theorem GameObject_move_inside_by_units:
  fixes r :: "'a GameObject_scheme" and q :: Rectangle
  shows "units \<le> canvas_width c \<Longrightarrow> units \<le> canvas_height c \<Longrightarrow>
    inside_by_units c (GameObject_move c d r) \<and>
    pos (GameObject_move c d (q\<lparr>width := w, height := h\<rparr>)) = pos (GameObject_move c d q)"
  by (simp add: inside_by_units_def GameObject_move_x GameObject_move_y
      GameObject_move_ignores_size)

theorem GameObject_move_inside_by_units_witness:
  "units \<le> canvas_width spec_canvas \<and> units \<le> canvas_height spec_canvas \<and>
   inside_by_units spec_canvas
     (GameObject_move spec_canvas (Vector_new (- 30) 700)
        (background (loaded_world spec_canvas This_undefined))) \<and>
   pos (GameObject_move spec_canvas (Vector_new (- 30) 700)
         ((background (loaded_world spec_canvas This_undefined))\<lparr>width := 20, height := 20\<rparr>))
   = pos (GameObject_move spec_canvas (Vector_new (- 30) 700)
         (background (loaded_world spec_canvas This_undefined)))"
proof -
  have h: "units \<le> canvas_width spec_canvas" "units \<le> canvas_height spec_canvas"
    by (simp_all add: units_def spec_canvas_def)
  show ?thesis
    using h GameObject_move_inside_by_units [OF h, where d = "Vector_new (- 30) 700"
        and r = "background (loaded_world spec_canvas This_undefined)"
        and q = "background (loaded_world spec_canvas This_undefined)"
        and w = 20 and h = 20]
    by simp
qed

section \<open>Rounding to a double\<close>

lemma find_exponent_ge: "e \<le> find_exponent n e a"
  by (induction n e a rule: find_exponent.induct) (auto split: if_splits)

lemma find_exponent_low:
  "find_exponent n e a = e \<or> 2 powi (find_exponent n e a + 52) \<le> a"
proof (induction n e a rule: find_exponent.induct)
  case (1 e a)
  then show ?case by simp
next
  case (2 n e a)
  show ?case
  proof (cases "2 powi (e + 53) \<le> a")
    case True
    from 2 True have "find_exponent n (e + 1) a = e + 1 \<or> 2 powi (find_exponent n (e + 1) a + 52) \<le> a"
      by simp
    then show ?thesis using True by (auto simp: add.commute)
  next
    case False
    then show ?thesis by simp
  qed
qed

lemma ulp_exponent_ge: "- 1074 \<le> ulp_exponent r"
  by (simp add: ulp_exponent_def find_exponent_ge)

lemma ulp_exponent_low: "ulp_exponent r = - 1074 \<or> 2 powi (ulp_exponent r + 52) \<le> \<bar>r\<bar>"
  unfolding ulp_exponent_def by (rule find_exponent_low)

lemma round_half_even_of_int: "round_half_even (of_int n) = n"
  by (simp add: round_half_even_def)


lemma round_double_scaled:
  assumes "ulp_exponent r \<le> k" and that: "r = of_int m * 2 powi k"
  shows "round_double r = r"
proof -
  define e where "e = ulp_exponent r"
  have ek: "e \<le> k" using assms by (simp add: e_def)
  have "(2::real) powi k = 2 powi (k - e) * 2 powi e"
    by (simp flip: power_int_add)
  also have "(2::real) powi (k - e) = of_int (2 ^ nat (k - e))"
    using ek by (simp add: power_int_nonneg_exp)
  finally have eq: "(2::real) powi k = of_int (2 ^ nat (k - e)) * 2 powi e" .
  have "r / 2 powi e = of_int (m * 2 ^ nat (k - e))"
    using that eq by simp
  then have "round_half_even (r / 2 powi e) = m * 2 ^ nat (k - e)"
    by (simp only: round_half_even_of_int)
  then have "round_double r = of_int (m * 2 ^ nat (k - e)) * 2 powi e"
    by (simp add: round_double_def e_def Let_def)
  also have "\<dots> = r" using that eq by simp
  finally show ?thesis .
qed

lemma powi_less_cancel: "(2::real) powi a < 2 powi b \<Longrightarrow> a < b"
  using power_int_increasing [of b a "2::real"] by (cases "a < b") simp_all

lemma is_double_ulp_exponent:
  assumes "\<bar>m\<bar> < 2 ^ 53" "- 1074 \<le> k"
  shows "ulp_exponent (of_int m * 2 powi k) \<le> k"
proof -
  let ?r = "real_of_int m * 2 powi k"
  consider "ulp_exponent ?r = - 1074" | "2 powi (ulp_exponent ?r + 52) \<le> \<bar>?r\<bar>"
    using ulp_exponent_low by blast
  then show ?thesis
  proof cases
    case 1
    then show ?thesis using assms by simp
  next
    case 2
    have "\<bar>?r\<bar> = of_int \<bar>m\<bar> * 2 powi k" by (simp add: abs_mult)
    also have "\<dots> < 2 ^ 53 * 2 powi k"
    proof -
      have "real_of_int \<bar>m\<bar> < 2 ^ 53" using assms(1) by (metis of_int_less_iff of_int_numeral of_int_power)
      then show ?thesis by (simp)
    qed
    also have "\<dots> = 2 powi (k + 53)" by (simp add: power_int_add)
    finally have "(2::real) powi (ulp_exponent ?r + 52) < 2 powi (k + 53)"
      using 2 by simp
    then have "ulp_exponent ?r + 52 < k + 53" by (rule powi_less_cancel)
    then show ?thesis by simp
  qed
qed

lemma round_double_exact: "is_double r \<Longrightarrow> round_double r = r"
proof -
  assume "is_double r"
  then obtain m e where me: "\<bar>m\<bar> < 2 ^ 53" "- 1074 \<le> e" "r = real_of_int m * 2 powi e"
    unfolding is_double_def by blast
  have "ulp_exponent r \<le> e" using is_double_ulp_exponent [OF me(1,2)] me(3) by simp
  then show ?thesis using me(3) by (rule round_double_scaled)
qed



lemma find_exponent_eq:
  "2 powi (e + 52) \<le> a \<or> e = s \<Longrightarrow> a < 2 powi (e + 53) \<Longrightarrow> s \<le> e \<Longrightarrow> e - s \<le> int n \<Longrightarrow>
   find_exponent n s a = e"
proof (induction n s a rule: find_exponent.induct)
  case (1 e' a)
  then show ?case by simp
next
  case (2 n s a)
  show ?case
  proof (cases "s = e")
    case True
    then show ?thesis using 2(3) by simp
  next
    case False
    then have lt: "s + 1 \<le> e" using 2(4) by simp
    then have "(2::real) powi (s + 53) \<le> 2 powi (e + 52)"
      by (intro power_int_increasing) simp_all
    then have t: "2 powi (s + 53) \<le> a" using 2(2) False by auto
    have "find_exponent n (s + 1) a = e"
      using 2 t lt False by (intro 2(1)) auto
    then show ?thesis using t by simp
  qed
qed

lemma ulp_exponent_eq:
  "2 powi (e + 52) \<le> \<bar>r\<bar> \<Longrightarrow> \<bar>r\<bar> < 2 powi (e + 53) \<Longrightarrow> - 1074 \<le> e \<Longrightarrow> e \<le> 971 \<Longrightarrow>
   ulp_exponent r = e"
  unfolding ulp_exponent_def by (rule find_exponent_eq) simp_all

lemma is_double_of_int: "\<bar>n\<bar> < 2 ^ 53 \<Longrightarrow> is_double (of_int n)"
  unfolding is_double_def by (rule exI [of _ n], rule exI [of _ 0]) simp

lemma is_double_numeral: "numeral k < (2::int) ^ 53 \<Longrightarrow> is_double (numeral k)"
  using is_double_of_int [of "numeral k"] by simp

lemma is_double_neg_numeral: "numeral k < (2::int) ^ 53 \<Longrightarrow> is_double (- numeral k)"
  using is_double_of_int [of "- numeral k"] by simp

lemma is_double_0: "is_double 0"
  using is_double_of_int [of 0] by simp

lemma is_double_1: "is_double 1"
  using is_double_of_int [of 1] by simp

lemmas double_simps =
  round_double_exact is_double_numeral is_double_neg_numeral is_double_0 is_double_1

section \<open>Left, then right\<close>







text \<open>
  It fails by rounding as well, inside the clamp range: at \<open>x = 1 + 2 ^ -52\<close>, left and
  then right by \<open>2 ^ -53\<close>, both sums are the tie \<open>1 + 2 ^ -53\<close>, which rounds to 1.
\<close>

lemma round_double_tie: "round_double (9007199254740993 / 9007199254740992) = 1"
proof -
  have e: "ulp_exponent (9007199254740993 / 9007199254740992) = - 52"
    by (rule ulp_exponent_eq) (simp_all add: power_int_def)
  have p: "(2::real) powi - 52 = 1 / 4503599627370496"
    by (simp add: power_int_def field_simps)
  have q: "(9007199254740993 / 9007199254740992) / (2::real) powi - 52 = 9007199254740993 / 2"
    unfolding p by simp
  have f: "\<lfloor>9007199254740993 / 2 :: real\<rfloor> = 4503599627370496"
    by (simp add: floor_eq_iff)
  have "round_half_even (9007199254740993 / 2) = 4503599627370496"
    unfolding round_half_even_def Let_def f by simp
  then show ?thesis
    unfolding round_double_def Let_def e q p by simp
qed

lemma is_double_above_1: "is_double (4503599627370497 / 4503599627370496)"
  unfolding is_double_def
  by (rule exI [of _ 4503599627370497], rule exI [of _ "- 52"])
    (simp add: power_int_def field_simps)

lemma GameObject_move_left_right_rounding:
  "x (pos (GameObject_move_double spec_canvas (Vector_new (1 / 9007199254740992) 0)
       (GameObject_move_double spec_canvas (Vector_new (- (1 / 9007199254740992)) 0)
          (Rectangle_new (Vector_new (4503599627370497 / 4503599627370496) 120) units units))))
   = 1"
  by (simp add: GameObject_move_double_def Position_move_double_def Vector_plus_double_def
      Vector_add_double_def Vector_origin_def Rectangle_new_def Vector_new_def units_def
      spec_canvas_def Let_def double_simps is_double_above_1 round_double_tie)



section \<open>The reassigned move of the player and the keydown listener\<close>

lemmas ArrowKey_defs = ArrowKey_Left_def ArrowKey_Up_def ArrowKey_Down_def ArrowKey_Right_def

text \<open>
  Claim C3: the function installed by \<^verbatim>\<open>player.move = ...\<close> changes nothing, for every
  vector argument and every top-level \<^verbatim>\<open>this\<close>: after the reassignment, a call of the
  player's \<^verbatim>\<open>move\<close> leaves the whole module state, and so both coordinates of
  \<^verbatim>\<open>player.pos\<close>, as they were (the call either raises a \<^verbatim>\<open>TypeError\<close> or runs an
  empty conditional; no boundary check is carried out).
\<close>

theorem player_move_override_unchanged:
  "snd (player_move_override v w) = w \<and>
   snd (player_move v (assign_player_move w)) = assign_player_move w \<and>
   pos (player (snd (player_move v (assign_player_move w)))) = pos (player w) \<and>
   x (pos (player (snd (player_move v (assign_player_move w))))) = x (pos (player w)) \<and>
   y (pos (player (snd (player_move v (assign_player_move w))))) = y (pos (player w))"
  by (simp add: player_move_def player_move_override_def assign_player_move_def
      split: module_this.split option.split)

text \<open>
  Claim C8: for a key that is none of \<^verbatim>\<open>ArrowLeft\<close>, \<^verbatim>\<open>ArrowUp\<close>, \<^verbatim>\<open>ArrowDown\<close>,
  \<^verbatim>\<open>ArrowRight\<close>, the listener is a no-op: the module state (every position in it) is
  unchanged and no error is raised.
\<close>

theorem keydown_other_key:
  "key \<notin> {ArrowKey_Left, ArrowKey_Up, ArrowKey_Down, ArrowKey_Right} \<Longrightarrow>
   keydown key w = (Inr (), w)"
  by (simp add: keydown_def)

theorem keydown_other_key_witness:
  "''Enter'' \<notin> {ArrowKey_Left, ArrowKey_Up, ArrowKey_Down, ArrowKey_Right} \<and>
   keydown ''Enter'' (loaded_world spec_canvas (This_object None))
     = (Inr (), loaded_world spec_canvas (This_object None))"
proof -
  have h: "''Enter'' \<notin> {ArrowKey_Left, ArrowKey_Up, ArrowKey_Down, ArrowKey_Right}"
    by (simp add: ArrowKey_defs)
  show ?thesis
    using h keydown_other_key [OF h, of "loaded_world spec_canvas (This_object None)"]
    by simp
qed

text \<open>
  The examples of the specification hold of \<^verbatim>\<open>GameObject.move\<close>, the method the
  player had before the reassignment: right from \<open>(100, 120)\<close> gives \<open>(120, 120)\<close>,
  right from \<open>x = 380\<close> stays at 380, left from \<open>(0, 0)\<close> stays at \<open>(0, 0)\<close>.
\<close>

lemma GameObject_move_spec_examples:
  "pos (GameObject_move spec_canvas (Vector_new units 0)
         (Rectangle_new (Vector_new 100 120) units units)) = Vector_new 120 120"
  "pos (GameObject_move spec_canvas (Vector_new units 0)
         (Rectangle_new (Vector_new 380 120) units units)) = Vector_new 380 120"
  "pos (GameObject_move spec_canvas (Vector_new (- units) 0)
         (Rectangle_new (Vector_new 0 0) units units)) = Vector_new 0 0"
  by (simp_all add: GameObject_move_def Position_move_def Vector_plus_def Vector_add_def
      Vector_origin_def Rectangle_new_def Vector_new_def spec_canvas_def units_def)

text \<open>
  Claim C2 (the worked examples: in the 400 by 400 world with step 20, a Right input
  moves the player from \<open>(100, 120)\<close> to \<open>(120, 120)\<close>) does not hold of the listener.
  After initialisation the player is at \<open>(100, 120)\<close>; the listener calls the
  reassigned \<^verbatim>\<open>player.move\<close>, so on \<^verbatim>\<open>ArrowRight\<close> the call raises a \<^verbatim>\<open>TypeError\<close> when
  the top-level \<^verbatim>\<open>this\<close> has no \<^verbatim>\<open>pos\<close>, and on every canvas and for every top-level
  \<^verbatim>\<open>this\<close> the player is still at \<open>(100, 120)\<close> afterwards.
\<close>

theorem keydown_Right_after_init:
  "init (Some spec_canvas) (This_object None)
     = Inr (loaded_world spec_canvas (This_object None)) \<and>
   pos (player (loaded_world spec_canvas (This_object None))) = Vector_new 100 120 \<and>
   keydown ArrowKey_Right (loaded_world spec_canvas (This_object None))
     = (Inl TypeError, loaded_world spec_canvas (This_object None)) \<and>
   pos (player (snd (keydown ArrowKey_Right (loaded_world c this)))) = Vector_new 100 120"
  by (simp add: init_def keydown_def player_move_def player_move_override_def world_defs
      ArrowKey_defs split: module_this.split option.split)

section \<open>Start-up\<close>

text \<open>
  Claim C9, as stated, fails: a canvas of width and height 0 is accepted at start-up
  (initialisation returns the module state, no error), and the clamp ceiling is then
  \<open>0 - 20\<close>: \<^verbatim>\<open>GameObject.move\<close> by one step to the right puts the player at \<open>x = -20\<close>.
\<close>

theorem init_empty_canvas_counterexample:
  "canvas_width empty_canvas \<le> 0 \<and> canvas_height empty_canvas \<le> 0 \<and>
   init (Some empty_canvas) This_undefined = Inr (loaded_world empty_canvas This_undefined) \<and>
   x (pos (GameObject_move empty_canvas (Vector_new units 0)
            (player (loaded_world empty_canvas This_undefined)))) = - 20"
  by (simp add: init_def empty_canvas_def GameObject_move_x world_defs)

text \<open>
  Claim C9, amended: start-up validates nothing about the world configuration. For
  every canvas that exists, whatever its width and height, initialisation succeeds
  and returns the module state; the only start-up error is the \<^verbatim>\<open>TypeError\<close> of a
  missing canvas element; and the step size is the constant 20, which no
  configuration changes.
\<close>

theorem init_accepts_every_canvas:
  "init (Some c) this = Inr (loaded_world c this) \<and>
   canvas (loaded_world c this) = c \<and>
   init None this = Inl TypeError \<and>
   units = 20"
  by (simp add: init_def loaded_world_def assign_player_move_def created_world_def units_def)

end
